theory Spec2Isabelle
  imports Main
begin

section \<open>The Styled string class of styled\_str/styled.py\<close>

text \<open>
  The class \<^verbatim>\<open>Styled(str)\<close> wraps display text (\<^verbatim>\<open>self.data\<close>) and a list of ANSI
  codes (\<^verbatim>\<open>self._codes\<close>). Python strings are modelled as \<^typ>\<open>string\<close>, read as
  sequences of code points below 256. Exceptions are values of \<open>error\<close>; a method that
  can raise returns \<open>error + 'a\<close>. The code lists are Python list objects: they live in a
  store and an instance holds the address of its list, so that sharing one list between
  two instances is visible.
\<close>

subsection \<open>Exceptions and the values that appear in a code list\<close>

datatype error = TypeError | ValueError | NameError | IndexError

text \<open>
  An element of \<^verbatim>\<open>_codes\<close> is what \<^verbatim>\<open>__init__\<close> appends: the \<^verbatim>\<open>str\<close> returned by
  \<^verbatim>\<open>_color_code\<close>, the \<^verbatim>\<open>int\<close> returned by \<^verbatim>\<open>STYLES.index\<close>, or \<^verbatim>\<open>None\<close> when
  \<^verbatim>\<open>_color_code\<close> falls off its last \<^verbatim>\<open>if\<close>.
\<close>

datatype code = CStr string | CInt int | CNone

subsection \<open>Built-in string operations\<close>

definition ESC :: char where
  "ESC = CHR 0x1B"

definition digit_char :: "nat \<Rightarrow> char" where
  "digit_char d = ''0123456789'' ! d"

fun nat_digits :: "nat \<Rightarrow> string" where
  "nat_digits n =
     (if n < 10 then [digit_char n] else nat_digits (n div 10) @ [digit_char (n mod 10)])"

declare nat_digits.simps [simp del]

text \<open>\<^verbatim>\<open>str(i)\<close> for an \<^verbatim>\<open>int\<close>.\<close>

definition str_int :: "int \<Rightarrow> string" where
  "str_int i = (if i < 0 then CHR ''-'' # nat_digits (nat (- i)) else nat_digits (nat i))"

text \<open>\<^verbatim>\<open>str(arg)\<close> for an element of a code list.\<close>

fun str_code :: "code \<Rightarrow> string" where
  "str_code (CStr s) = s"
| "str_code (CInt i) = str_int i"
| "str_code CNone = ''None''"

text \<open>\<^verbatim>\<open>sep.join(parts)\<close>.\<close>

fun str_join :: "string \<Rightarrow> string list \<Rightarrow> string" where
  "str_join sep [] = []"
| "str_join sep [x] = x"
| "str_join sep (x # y # ys) = x @ sep @ str_join sep (y # ys)"

text \<open>
  \<^verbatim>\<open>Styled._join(*args)\<close>, line 449:
  \<^verbatim>\<open>return ';'.join(str(arg) for arg in args)\<close>.
\<close>

definition Styled_join :: "code list \<Rightarrow> string" where
  "Styled_join args = str_join '';'' (map str_code args)"

text \<open>
  \<^verbatim>\<open>str.strip()\<close> removes leading and trailing whitespace; below 256 the whitespace
  code points are 9 to 13, 28 to 32, 133 and 160.
\<close>

definition is_space :: "char \<Rightarrow> bool" where
  "is_space c =
     (let n = (of_char c :: nat)
      in if 9 \<le> n \<and> n \<le> 13 then True
         else if 28 \<le> n \<and> n \<le> 32 then True
         else n = 133 \<or> n = 160)"

definition str_strip :: "string \<Rightarrow> string" where
  "str_strip s = rev (dropWhile is_space (rev (dropWhile is_space s)))"

text \<open>
  \<^verbatim>\<open>str.lower()\<close>: below 256 the letters with a lower-case form are A to Z and 192 to
  222 without 215 (the multiplication sign); the lower-case form is 32 above.
\<close>

definition lower_char :: "char \<Rightarrow> char" where
  "lower_char c =
     (let n = (of_char c :: nat)
      in if 65 \<le> n \<and> n \<le> 90 then char_of (n + 32)
         else if 192 \<le> n \<and> n \<le> 222 then (if n = 215 then c else char_of (n + 32))
         else c)"

definition str_lower :: "string \<Rightarrow> string" where
  "str_lower s = map lower_char s"

text \<open>
  \<^verbatim>\<open>s.__format__(format_string)\<close> of the built-in \<^verbatim>\<open>str\<close>. With the empty format
  specification it returns \<^verbatim>\<open>s\<close>; the mini-language of a non-empty specification
  (fill, alignment, width, precision) is the interpreter's and is the parameter \<open>fmt\<close>,
  which raises \<^verbatim>\<open>ValueError\<close> on a specification it rejects.
\<close>

type_synonym str_formatter = "string \<Rightarrow> string \<Rightarrow> error + string"

definition str_format :: "str_formatter \<Rightarrow> string \<Rightarrow> string \<Rightarrow> error + string" where
  "str_format fmt s format_string = (if format_string = [] then Inr s else fmt s format_string)"

text \<open>
  \<^verbatim>\<open>TEMPLATE = "\x1b[{}m{}\x1b[0m"\<close>, line 48, and \<^verbatim>\<open>TEMPLATE.format(*args)\<close>: the
  two fields take the first two positional arguments, further arguments are ignored, and
  fewer than two raise \<^verbatim>\<open>IndexError\<close>. The arguments are given here already formatted
  with the empty specification.
\<close>

fun TEMPLATE_format :: "string list \<Rightarrow> error + string" where
  "TEMPLATE_format (a0 # a1 # rest) = Inr ([ESC, CHR ''[''] @ a0 @ ''m'' @ a1 @ [ESC] @ ''[0m'')"
| "TEMPLATE_format args = Inl IndexError"

subsection \<open>The store of list objects\<close>

type_synonym addr = nat

record store =
  cells :: "addr \<Rightarrow> code list"
  fresh :: addr

definition empty_store :: store where
  "empty_store = \<lparr>cells = (\<lambda>a. []), fresh = 0\<rparr>"

text \<open>A new list object with the given elements (\<^verbatim>\<open>[]\<close>, or \<^verbatim>\<open>xs[:]\<close>).\<close>

definition alloc :: "store \<Rightarrow> code list \<Rightarrow> addr \<times> store" where
  "alloc st cs = (fresh st, st\<lparr>cells := (cells st)(fresh st := cs), fresh := Suc (fresh st)\<rparr>)"

text \<open>\<^verbatim>\<open>xs.append(c)\<close> on the list object at address \<open>a\<close>.\<close>

definition list_append :: "store \<Rightarrow> addr \<Rightarrow> code \<Rightarrow> store" where
  "list_append st a c = st\<lparr>cells := (cells st)(a := cells st a @ [c])\<rparr>"

subsection \<open>Instances\<close>

text \<open>
  An instance has the value of its \<^verbatim>\<open>str\<close> base object (fixed by \<^verbatim>\<open>__new__\<close>), the
  attribute \<^verbatim>\<open>data\<close> and the attribute \<^verbatim>\<open>_codes\<close>. \<^verbatim>\<open>Styled\<close> is a subclass of
  \<^verbatim>\<open>str\<close>, so the test \<^verbatim>\<open>isinstance(data, str)\<close> of line 61 also accepts a
  \<^verbatim>\<open>Styled\<close>, and \<^verbatim>\<open>data\<close> holds either a plain string or an instance.
\<close>

datatype styled = Styled (strval: string) (data: content) (codes: addr)
  and content = Str string | Obj styled

text \<open>The Python values a caller may pass where text is expected.\<close>

datatype pyval = PStr string | PStyled styled | PInt int | PNone

fun isinstance_str :: "pyval \<Rightarrow> bool" where
  "isinstance_str (PStr s) = True"
| "isinstance_str (PStyled v) = True"
| "isinstance_str x = False"

fun isinstance_Styled :: "pyval \<Rightarrow> bool" where
  "isinstance_Styled (PStyled v) = True"
| "isinstance_Styled x = False"

subsection \<open>Rendering: \_\_format\_\_ and \_\_str\_\_\<close>

text \<open>
  \<^verbatim>\<open>Styled.__format__\<close>, lines 213 to 216:
  \<^verbatim>\<open>return self.TEMPLATE.format(*self._codes, self.data.__format__(format_string))\<close>.
  \<^verbatim>\<open>self.data.__format__\<close> is the built-in for a plain string and this method again
  for an instance.
\<close>

fun Styled_format :: "str_formatter \<Rightarrow> store \<Rightarrow> styled \<Rightarrow> string \<Rightarrow> error + string"
  and content_format :: "str_formatter \<Rightarrow> store \<Rightarrow> content \<Rightarrow> string \<Rightarrow> error + string"
where
  "Styled_format fmt st (Styled sv d a) format_string =
     (case content_format fmt st d format_string of
        Inl e \<Rightarrow> Inl e
      | Inr body \<Rightarrow> TEMPLATE_format (map str_code (cells st a) @ [body]))"
| "content_format fmt st (Str s) format_string = str_format fmt s format_string"
| "content_format fmt st (Obj v) format_string = Styled_format fmt st v format_string"

text \<open>
  \<^verbatim>\<open>Styled.__str__\<close>, lines 99 to 102:
  \<^verbatim>\<open>return self.TEMPLATE.format(self._join(*self._codes), self.data)\<close>.
  The second field formats \<^verbatim>\<open>self.data\<close> with the empty specification.
\<close>

definition Styled_str :: "str_formatter \<Rightarrow> store \<Rightarrow> styled \<Rightarrow> error + string" where
  "Styled_str fmt st self =
     (case content_format fmt st (data self) [] of
        Inl e \<Rightarrow> Inl e
      | Inr body \<Rightarrow> TEMPLATE_format [Styled_join (cells st (codes self)), body])"

text \<open>The built-in \<^verbatim>\<open>str(x)\<close>.\<close>

fun builtin_str :: "str_formatter \<Rightarrow> store \<Rightarrow> pyval \<Rightarrow> error + string" where
  "builtin_str fmt st (PStr s) = Inr s"
| "builtin_str fmt st (PStyled v) = Styled_str fmt st v"
| "builtin_str fmt st (PInt i) = Inr (str_int i)"
| "builtin_str fmt st PNone = Inr ''None''"

subsection \<open>Construction: \_\_new\_\_, \_color\_code and \_\_init\_\_\<close>

definition BASE_FG :: int where "BASE_FG = 30"
definition BASE_BG :: int where "BASE_BG = 40"
definition BASE_BRIGHT_INC :: int where "BASE_BRIGHT_INC = 60"

definition COLORS :: "string list" where
  "COLORS = [''black'', ''red'', ''green'', ''yellow'', ''blue'', ''magenta'', ''cyan'',
             ''white'']"

definition STYLES :: "string list" where
  "STYLES = [''none'', ''bold'', ''faint'', ''italic'', ''underlined'', ''blink'',
             ''blink2'', ''negative'', ''concealed'', ''crossed'']"

text \<open>
  \<^verbatim>\<open>tuple.index(x)\<close>, the position of the first element equal to \<open>x\<close>. The source calls
  it only after the membership test has succeeded.
\<close>

fun tuple_index :: "string list \<Rightarrow> string \<Rightarrow> nat" where
  "tuple_index [] x = 0"
| "tuple_index (y # ys) x = (if y = x then 0 else Suc (tuple_index ys x))"

text \<open>
  A colour specification as the caller passes it: a string, an integer, or a tuple or
  list. The truth value of each is Python's: the empty string, zero and the empty
  sequence are false.
\<close>

datatype spec = SStr string | SInt int | SSeq "int list"

fun truthy_spec :: "spec \<Rightarrow> bool" where
  "truthy_spec (SStr s) = (s \<noteq> [])"
| "truthy_spec (SInt n) = (n \<noteq> 0)"
| "truthy_spec (SSeq xs) = (xs \<noteq> [])"

text \<open>
  \<^verbatim>\<open>Styled._color_code(spec, base)\<close>, lines 431 to 446. A string is stripped and
  lower-cased first; it can only match \<^verbatim>\<open>'default'\<close> or a member of \<^verbatim>\<open>COLORS\<close>. An
  integer can only pass the range test. For a tuple or list, the argument
  \<^verbatim>\<open>_join(*spec)\<close> of line 446 names a global \<^verbatim>\<open>_join\<close> that the module does not
  define, which raises \<^verbatim>\<open>NameError\<close>. When no \<^verbatim>\<open>if\<close> applies the function ends
  without a \<^verbatim>\<open>return\<close>, so its value is \<^verbatim>\<open>None\<close>.
\<close>

fun color_code :: "spec \<Rightarrow> int \<Rightarrow> error + code" where
  "color_code (SStr s0) base =
     (let s = str_lower (str_strip s0)
      in if s = ''default'' then Inr (CStr (Styled_join [CInt (base + 9)]))
         else if s \<in> set COLORS
              then Inr (CStr (Styled_join [CInt (base + int (tuple_index COLORS s))]))
         else Inr CNone)"
| "color_code (SInt n) base =
     (if 0 \<le> n \<and> n \<le> 255 then Inr (CStr (Styled_join [CInt (base + 8), CInt 5, CInt n]))
      else Inr CNone)"
| "color_code (SSeq xs) base = Inl NameError"

text \<open>
  The \<^verbatim>\<open>style\<close> argument: one name or a list of names. Lines 85 to 89 append the index
  of each name in \<^verbatim>\<open>STYLES\<close> and raise \<^verbatim>\<open>ValueError\<close> at the first name that is not
  a member.
\<close>

datatype style_arg = StyleStr string | StyleList "string list"

fun truthy_style :: "style_arg \<Rightarrow> bool" where
  "truthy_style (StyleStr s) = (s \<noteq> [])"
| "truthy_style (StyleList parts) = (parts \<noteq> [])"

fun style_parts :: "style_arg \<Rightarrow> string list" where
  "style_parts (StyleStr s) = [s]"
| "style_parts (StyleList parts) = parts"

fun style_codes :: "string list \<Rightarrow> error + code list" where
  "style_codes [] = Inr []"
| "style_codes (part # rest) =
     (if part \<in> set STYLES
      then (case style_codes rest of
              Inl e \<Rightarrow> Inl e
            | Inr cs \<Rightarrow> Inr (CInt (int (tuple_index STYLES part)) # cs))
      else Inl ValueError)"

text \<open>The keyword arguments of the constructor, with their defaults.\<close>

record kwargs =
  fg :: "spec option"
  brightfg :: bool
  bg :: "spec option"
  brightbg :: bool
  style :: "style_arg option"

definition no_kwargs :: kwargs where
  "no_kwargs = \<lparr>fg = None, brightfg = False, bg = None, brightbg = False, style = None\<rparr>"

text \<open>
  One \<^verbatim>\<open>if fg:\<close> block of lines 71 to 79: nothing for an absent or false
  specification, otherwise the one code \<^verbatim>\<open>_color_code\<close> returns for the base, to which
  \<^verbatim>\<open>BASE_BRIGHT_INC\<close> has been added when the bright flag is set.
\<close>

definition color_part :: "spec option \<Rightarrow> int \<Rightarrow> bool \<Rightarrow> error + code list" where
  "color_part sp base bright =
     (case sp of
        None \<Rightarrow> Inr []
      | Some s \<Rightarrow>
          if truthy_spec s
          then (case color_code s (base + (if bright then BASE_BRIGHT_INC else 0)) of
                  Inl e \<Rightarrow> Inl e
                | Inr c \<Rightarrow> Inr [c])
          else Inr [])"

definition style_part :: "style_arg option \<Rightarrow> error + code list" where
  "style_part sty =
     (case sty of
        None \<Rightarrow> Inr []
      | Some s \<Rightarrow> if truthy_style s then style_codes (style_parts s) else Inr [])"

text \<open>
  The elements that lines 69 to 89 of \<^verbatim>\<open>__init__\<close> append to the new list, in order:
  foreground, background, styles.
\<close>

definition init_codes :: "kwargs \<Rightarrow> error + code list" where
  "init_codes kw =
     (case color_part (fg kw) BASE_FG (brightfg kw) of
        Inl e \<Rightarrow> Inl e
      | Inr c1 \<Rightarrow>
          (case color_part (bg kw) BASE_BG (brightbg kw) of
             Inl e \<Rightarrow> Inl e
           | Inr c2 \<Rightarrow>
               (case style_part (style kw) of
                  Inl e \<Rightarrow> Inl e
                | Inr c3 \<Rightarrow> Inr (c1 @ c2 @ c3))))"

text \<open>
  Lines 61 to 66 of \<^verbatim>\<open>__init__\<close>, which set \<^verbatim>\<open>self.data\<close>. The test
  \<^verbatim>\<open>isinstance(data, str)\<close> of line 61 holds for a plain string and for an instance,
  and both are stored as they are (line 62). The \<^verbatim>\<open>elif isinstance(data, Styled)\<close> of
  line 63, which would store the content \<^verbatim>\<open>data.data[:]\<close> of the instance, is
  therefore never reached. Any other value is stored as \<^verbatim>\<open>str(data)\<close> (line 66).
\<close>

fun init_data :: "str_formatter \<Rightarrow> store \<Rightarrow> pyval \<Rightarrow> error + content" where
  "init_data fmt st (PStr s) = Inr (Str s)"
| "init_data fmt st (PStyled v) = Inr (Obj v)"
| "init_data fmt st x =
     (case builtin_str fmt st x of Inl e \<Rightarrow> Inl e | Inr s \<Rightarrow> Inr (Str s))"

text \<open>
  \<^verbatim>\<open>Styled.__new__(cls, data, codes=None, **kwargs)\<close>, lines 93 to 97. It creates the
  \<^verbatim>\<open>str\<close> base object with the value \<^verbatim>\<open>str(data)\<close> and, when \<^verbatim>\<open>codes\<close> is a
  non-empty list, sets \<^verbatim>\<open>_codes\<close> to a copy of it. It does not set \<^verbatim>\<open>data\<close>: the
  object it returns has a base value and at most the attribute \<^verbatim>\<open>_codes\<close>.
\<close>

record raw_instance =
  raw_strval :: string
  raw_codes :: "addr option"

definition Styled_new ::
  "str_formatter \<Rightarrow> store \<Rightarrow> pyval \<Rightarrow> addr option \<Rightarrow> error + raw_instance \<times> store" where
  "Styled_new fmt st d cds =
     (case builtin_str fmt st d of
        Inl e \<Rightarrow> Inl e
      | Inr sv \<Rightarrow>
          (case cds of
             None \<Rightarrow> Inr (\<lparr>raw_strval = sv, raw_codes = None\<rparr>, st)
           | Some a \<Rightarrow>
               if cells st a \<noteq> []
               then (let (a', st') = alloc st (cells st a)
                     in Inr (\<lparr>raw_strval = sv, raw_codes = Some a'\<rparr>, st'))
               else Inr (\<lparr>raw_strval = sv, raw_codes = None\<rparr>, st)))"

text \<open>
  \<^verbatim>\<open>Styled.__init__\<close>, lines 50 to 89, on the object \<^verbatim>\<open>__new__\<close> returned: it sets
  \<^verbatim>\<open>data\<close>, binds \<^verbatim>\<open>_codes\<close> to a new list and appends the codes to it. An exception
  abandons the object.
\<close>

definition Styled_init ::
  "str_formatter \<Rightarrow> store \<Rightarrow> raw_instance \<Rightarrow> pyval \<Rightarrow> kwargs \<Rightarrow> error + styled \<times> store" where
  "Styled_init fmt st self d kw =
     (case init_data fmt st d of
        Inl e \<Rightarrow> Inl e
      | Inr c \<Rightarrow>
          (case init_codes kw of
             Inl e \<Rightarrow> Inl e
           | Inr cs \<Rightarrow>
               (let (a, st') = alloc st cs
                in Inr (Styled (raw_strval self) c a, st'))))"

text \<open>
  The call \<^verbatim>\<open>Styled(data, fg=..., brightfg=..., bg=..., brightbg=..., style=...)\<close>:
  \<^verbatim>\<open>__new__\<close> with \<^verbatim>\<open>codes=None\<close>, then \<^verbatim>\<open>__init__\<close>.
\<close>

definition Styled_call ::
  "str_formatter \<Rightarrow> store \<Rightarrow> pyval \<Rightarrow> kwargs \<Rightarrow> error + styled \<times> store" where
  "Styled_call fmt st d kw =
     (case Styled_new fmt st d None of
        Inl e \<Rightarrow> Inl e
      | Inr (self, st1) \<Rightarrow> Styled_init fmt st1 self d kw)"

subsection \<open>Content-only operations: \_\_eq\_\_, \_\_hash\_\_, \_\_len\_\_ and the orderings\<close>

text \<open>A content seen as a Python value again.\<close>

definition pyval_of :: "content \<Rightarrow> pyval" where
  "pyval_of d = (case d of Str s \<Rightarrow> PStr s | Obj v \<Rightarrow> PStyled v)"

text \<open>
  The measure of the recursive calls below: each call from a method to a comparison of
  contents, and back from a comparison to the method of an operand, takes a constructor
  off one of the two operands.
\<close>

fun pyval_size :: "pyval \<Rightarrow> nat" where
  "pyval_size (PStyled v) = Suc (size v)"
| "pyval_size x = 0"

definition call_size :: "styled \<times> pyval \<Rightarrow> nat" where
  "call_size p = size (fst p) + pyval_size (snd p)"

text \<open>
  \<^verbatim>\<open>Styled.__eq__\<close>, lines 122 to 127, with the expression \<^verbatim>\<open>x == y\<close> on two
  contents (\<open>content_eq\<close>). Two plain strings compare by value. When an operand is an
  instance, Python calls its \<^verbatim>\<open>__eq__\<close>: that of the left operand, or that of the
  right operand when the left one is a plain string (an instance of a subclass that
  overrides the method goes first).
\<close>

function (sequential)
      Styled_eq :: "styled \<Rightarrow> pyval \<Rightarrow> bool"
  and content_eq :: "content \<Rightarrow> content \<Rightarrow> bool"
where
  "Styled_eq (Styled sv d a) (PStr t) = content_eq d (Str t)"
| "Styled_eq (Styled sv d a) (PStyled (Styled sv' d' a')) = content_eq d d'"
| "Styled_eq self other = False"
| "content_eq (Str s) (Str t) = (s = t)"
| "content_eq (Obj v) d = Styled_eq v (pyval_of d)"
| "content_eq (Str s) (Obj v) = Styled_eq v (PStr s)"
  by pat_completeness auto
termination
  by (relation "measure (case_sum call_size (\<lambda>(c, d). size c + size d))")
     (auto simp: call_size_def pyval_of_def split: content.splits)

text \<open>
  \<^verbatim>\<open>Styled.__hash__\<close>, lines 116 and 117: \<^verbatim>\<open>return hash(self.data)\<close>. The hash of a
  plain string is the interpreter's, the parameter \<open>h\<close>.
\<close>

fun Styled_hash :: "(string \<Rightarrow> int) \<Rightarrow> styled \<Rightarrow> int"
  and content_hash :: "(string \<Rightarrow> int) \<Rightarrow> content \<Rightarrow> int"
where
  "Styled_hash h (Styled sv d a) = content_hash h d"
| "content_hash h (Str s) = h s"
| "content_hash h (Obj v) = Styled_hash h v"

text \<open>\<^verbatim>\<open>Styled.__len__\<close>, lines 170 and 171: \<^verbatim>\<open>return len(self.data)\<close>.\<close>

fun Styled_len :: "styled \<Rightarrow> nat"
  and content_len :: "content \<Rightarrow> nat"
where
  "Styled_len (Styled sv d a) = content_len d"
| "content_len (Str s) = length s"
| "content_len (Obj v) = Styled_len v"

text \<open>The order of \<^verbatim>\<open>str\<close>: lexicographic by code point.\<close>

fun str_lt :: "string \<Rightarrow> string \<Rightarrow> bool" where
  "str_lt [] [] = False"
| "str_lt [] (y # ys) = True"
| "str_lt (x # xs) [] = False"
| "str_lt (x # xs) (y # ys) =
     (if (of_char x :: nat) < of_char y then True
      else if (of_char y :: nat) < of_char x then False
      else str_lt xs ys)"

datatype cmp_op = Lt | Le | Gt | Ge

fun str_cmp :: "cmp_op \<Rightarrow> string \<Rightarrow> string \<Rightarrow> bool" where
  "str_cmp Lt s t = str_lt s t"
| "str_cmp Le s t = (s = t \<or> str_lt s t)"
| "str_cmp Gt s t = str_lt t s"
| "str_cmp Ge s t = (s = t \<or> str_lt t s)"

text \<open>
  \<^verbatim>\<open>Styled.__lt__\<close> (lines 129 to 136), \<^verbatim>\<open>__le__\<close> (138 to 145), \<^verbatim>\<open>__gt__\<close> (147
  to 154) and \<^verbatim>\<open>__ge__\<close> (156 to 163), with the expression \<^verbatim>\<open>x op y\<close> on two
  contents (\<open>content_cmp\<close>). Each method raises \<^verbatim>\<open>TypeError\<close> for an operand that is
  not a \<^verbatim>\<open>str\<close>. For an instance, \<^verbatim>\<open>__lt__\<close> returns
  \<^verbatim>\<open>self.data < other.data\<close>; the other three have \<^verbatim>\<open>return self,data <= other.data\<close>
  (a comma for the dot: lines 143, 152, 161), a tuple whose second component starts with
  the undefined name \<^verbatim>\<open>data\<close>, so they raise \<^verbatim>\<open>NameError\<close>. For a plain string
  every method compares \<^verbatim>\<open>self.data\<close> with it. On contents, a plain left operand
  against an instance calls the reflected method of the instance.
\<close>

function (sequential)
      Styled_lt :: "styled \<Rightarrow> pyval \<Rightarrow> error + bool"
  and Styled_le :: "styled \<Rightarrow> pyval \<Rightarrow> error + bool"
  and Styled_gt :: "styled \<Rightarrow> pyval \<Rightarrow> error + bool"
  and Styled_ge :: "styled \<Rightarrow> pyval \<Rightarrow> error + bool"
  and content_cmp :: "cmp_op \<Rightarrow> content \<Rightarrow> content \<Rightarrow> error + bool"
where
  "Styled_lt (Styled sv d a) (PStr t) = content_cmp Lt d (Str t)"
| "Styled_lt (Styled sv d a) (PStyled (Styled sv' d' a')) = content_cmp Lt d d'"
| "Styled_lt self other = Inl TypeError"
| "Styled_le (Styled sv d a) (PStr t) = content_cmp Le d (Str t)"
| "Styled_le (Styled sv d a) (PStyled other) = Inl NameError"
| "Styled_le self other = Inl TypeError"
| "Styled_gt (Styled sv d a) (PStr t) = content_cmp Gt d (Str t)"
| "Styled_gt (Styled sv d a) (PStyled other) = Inl NameError"
| "Styled_gt self other = Inl TypeError"
| "Styled_ge (Styled sv d a) (PStr t) = content_cmp Ge d (Str t)"
| "Styled_ge (Styled sv d a) (PStyled other) = Inl NameError"
| "Styled_ge self other = Inl TypeError"
| "content_cmp op (Str s) (Str t) = Inr (str_cmp op s t)"
| "content_cmp Lt (Obj v) d = Styled_lt v (pyval_of d)"
| "content_cmp Le (Obj v) d = Styled_le v (pyval_of d)"
| "content_cmp Gt (Obj v) d = Styled_gt v (pyval_of d)"
| "content_cmp Ge (Obj v) d = Styled_ge v (pyval_of d)"
| "content_cmp Lt (Str s) (Obj v) = Styled_gt v (PStr s)"
| "content_cmp Le (Str s) (Obj v) = Styled_ge v (PStr s)"
| "content_cmp Gt (Str s) (Obj v) = Styled_lt v (PStr s)"
| "content_cmp Ge (Str s) (Obj v) = Styled_le v (PStr s)"
  by pat_completeness auto
termination
  by (relation "measure (case_sum (case_sum call_size call_size)
                  (case_sum call_size (case_sum call_size (\<lambda>(op, c, d). size c + size d))))")
     (auto simp: call_size_def pyval_of_def split: content.splits)

subsection \<open>Concatenation: \_\_add\_\_ and \_\_radd\_\_\<close>

text \<open>
  \<^verbatim>\<open>Styled.__add__\<close>, lines 178 to 185: \<^verbatim>\<open>TypeError\<close> unless \<^verbatim>\<open>other\<close> is a
  \<^verbatim>\<open>str\<close>, else \<^verbatim>\<open>str(self) + str(other)\<close>.
\<close>

definition Styled_add :: "str_formatter \<Rightarrow> store \<Rightarrow> styled \<Rightarrow> pyval \<Rightarrow> error + string" where
  "Styled_add fmt st self other =
     (if \<not> isinstance_str other then Inl TypeError
      else (case Styled_str fmt st self of
              Inl e \<Rightarrow> Inl e
            | Inr l \<Rightarrow>
                (case builtin_str fmt st other of
                   Inl e \<Rightarrow> Inl e
                 | Inr r \<Rightarrow> Inr (l @ r))))"

text \<open>
  \<^verbatim>\<open>Styled.__radd__\<close>, lines 187 to 194: \<^verbatim>\<open>TypeError\<close> unless \<^verbatim>\<open>other\<close> is a
  \<^verbatim>\<open>str\<close>, else \<^verbatim>\<open>str(other) + str(self)\<close>.
\<close>

definition Styled_radd :: "str_formatter \<Rightarrow> store \<Rightarrow> styled \<Rightarrow> pyval \<Rightarrow> error + string" where
  "Styled_radd fmt st self other =
     (if \<not> isinstance_str other then Inl TypeError
      else (case builtin_str fmt st other of
              Inl e \<Rightarrow> Inl e
            | Inr l \<Rightarrow>
                (case Styled_str fmt st self of
                   Inl e \<Rightarrow> Inl e
                 | Inr r \<Rightarrow> Inr (l @ r))))"

subsection \<open>Operations that return a new instance\<close>

text \<open>The assignment \<^verbatim>\<open>new_styled._codes = a\<close>: the attribute now names the list at \<open>a\<close>.\<close>

definition set_codes :: "styled \<Rightarrow> addr \<Rightarrow> styled" where
  "set_codes new_styled a = Styled (strval new_styled) (data new_styled) a"

text \<open>\<^verbatim>\<open>s * n\<close> for a plain string: \<open>n\<close> copies, none when \<open>n\<close> is not positive.\<close>

definition str_repeat :: "string \<Rightarrow> int \<Rightarrow> string" where
  "str_repeat s n = concat (replicate (nat n) s)"

text \<open>
  \<^verbatim>\<open>Styled.__mul__\<close>, lines 196 to 199:
  \<^verbatim>\<open>new_styled = self.__class__(self.data * n)\<close>,
  \<^verbatim>\<open>new_styled._codes = self._codes\<close>. The product \<^verbatim>\<open>self.data * n\<close> is the built-in
  for a plain string and this method for an instance.
\<close>

fun Styled_mul :: "str_formatter \<Rightarrow> store \<Rightarrow> styled \<Rightarrow> int \<Rightarrow> error + styled \<times> store"
  and content_mul :: "str_formatter \<Rightarrow> store \<Rightarrow> content \<Rightarrow> int \<Rightarrow> error + pyval \<times> store"
where
  "Styled_mul fmt st (Styled sv d a) n =
     (case content_mul fmt st d n of
        Inl e \<Rightarrow> Inl e
      | Inr (x, st1) \<Rightarrow>
          (case Styled_call fmt st1 x no_kwargs of
             Inl e \<Rightarrow> Inl e
           | Inr (new_styled, st2) \<Rightarrow> Inr (set_codes new_styled a, st2)))"
| "content_mul fmt st (Str s) n = Inr (PStr (str_repeat s n), st)"
| "content_mul fmt st (Obj v) n =
     (case Styled_mul fmt st v n of
        Inl e \<Rightarrow> Inl e
      | Inr (w, st1) \<Rightarrow> Inr (PStyled w, st1))"

text \<open>
  \<^verbatim>\<open>Styled.upper\<close>, lines 408 to 411:
  \<^verbatim>\<open>new_styled = self.__class__(self.data.upper())\<close>,
  \<^verbatim>\<open>new_styled._codes = self._codes\<close>. The built-in \<^verbatim>\<open>str.upper\<close> is the parameter
  \<open>up\<close>. The methods \<^verbatim>\<open>capitalize\<close>, \<^verbatim>\<open>casefold\<close>, \<^verbatim>\<open>lower\<close>, \<^verbatim>\<open>swapcase\<close>,
  \<^verbatim>\<open>title\<close>, \<^verbatim>\<open>strip\<close>, \<^verbatim>\<open>lstrip\<close>, \<^verbatim>\<open>rstrip\<close>, \<^verbatim>\<open>center\<close>, \<^verbatim>\<open>ljust\<close>,
  \<^verbatim>\<open>rjust\<close>, \<^verbatim>\<open>zfill\<close> and \<^verbatim>\<open>expandtabs\<close> have the same two statements with their
  own built-in in place of \<^verbatim>\<open>upper\<close>.
\<close>

fun Styled_upper ::
      "(string \<Rightarrow> string) \<Rightarrow> str_formatter \<Rightarrow> store \<Rightarrow> styled \<Rightarrow> error + styled \<times> store"
  and content_upper ::
      "(string \<Rightarrow> string) \<Rightarrow> str_formatter \<Rightarrow> store \<Rightarrow> content \<Rightarrow> error + pyval \<times> store"
where
  "Styled_upper up fmt st (Styled sv d a) =
     (case content_upper up fmt st d of
        Inl e \<Rightarrow> Inl e
      | Inr (x, st1) \<Rightarrow>
          (case Styled_call fmt st1 x no_kwargs of
             Inl e \<Rightarrow> Inl e
           | Inr (new_styled, st2) \<Rightarrow> Inr (set_codes new_styled a, st2)))"
| "content_upper up fmt st (Str s) = Inr (PStr (up s), st)"
| "content_upper up fmt st (Obj v) =
     (case Styled_upper up fmt st v of
        Inl e \<Rightarrow> Inl e
      | Inr (w, st1) \<Rightarrow> Inr (PStyled w, st1))"

text \<open>
  \<^verbatim>\<open>s[key]\<close> for a plain string and an integer key: a negative key counts from the
  end, a key out of range raises \<^verbatim>\<open>IndexError\<close>.
\<close>

definition str_getitem :: "string \<Rightarrow> int \<Rightarrow> error + string" where
  "str_getitem s key =
     (let n = int (length s); j = (if key < 0 then n + key else key)
      in if 0 \<le> j \<and> j < n then Inr [s ! nat j] else Inl IndexError)"

text \<open>
  \<^verbatim>\<open>Styled.__getitem__\<close>, lines 173 to 176, for an integer key:
  \<^verbatim>\<open>new_styled = self.__class__(self.data[key])\<close>,
  \<^verbatim>\<open>new_styled._codes = self._codes[:]\<close>.
\<close>

fun Styled_getitem :: "str_formatter \<Rightarrow> store \<Rightarrow> styled \<Rightarrow> int \<Rightarrow> error + styled \<times> store"
  and content_getitem :: "str_formatter \<Rightarrow> store \<Rightarrow> content \<Rightarrow> int \<Rightarrow> error + pyval \<times> store"
where
  "Styled_getitem fmt st (Styled sv d a) key =
     (case content_getitem fmt st d key of
        Inl e \<Rightarrow> Inl e
      | Inr (x, st1) \<Rightarrow>
          (case Styled_call fmt st1 x no_kwargs of
             Inl e \<Rightarrow> Inl e
           | Inr (new_styled, st2) \<Rightarrow>
               (let (a', st3) = alloc st2 (cells st2 a)
                in Inr (set_codes new_styled a', st3))))"
| "content_getitem fmt st (Str s) key =
     (case str_getitem s key of Inl e \<Rightarrow> Inl e | Inr c \<Rightarrow> Inr (PStr c, st))"
| "content_getitem fmt st (Obj v) key =
     (case Styled_getitem fmt st v key of
        Inl e \<Rightarrow> Inl e
      | Inr (w, st1) \<Rightarrow> Inr (PStyled w, st1))"

text \<open>
  The truth value of an argument: a plain string is true when non-empty, an instance
  when its \<^verbatim>\<open>__len__\<close> is not zero, an integer when not zero; \<^verbatim>\<open>None\<close> is false.
\<close>

fun truthy :: "pyval \<Rightarrow> bool" where
  "truthy (PStr s) = (s \<noteq> [])"
| "truthy (PStyled v) = (Styled_len v \<noteq> 0)"
| "truthy (PInt i) = (i \<noteq> 0)"
| "truthy PNone = False"

text \<open>
  \<^verbatim>\<open>Styled.copy(self, new_data=None)\<close>, lines 422 to 425:
  \<^verbatim>\<open>new_styled = self.__class__(new_data if new_data else self.data)\<close>,
  \<^verbatim>\<open>new_styled._codes = self._codes[:]\<close>.
\<close>

definition Styled_copy ::
  "str_formatter \<Rightarrow> store \<Rightarrow> styled \<Rightarrow> pyval \<Rightarrow> error + styled \<times> store" where
  "Styled_copy fmt st self new_data =
     (case Styled_call fmt st (if truthy new_data then new_data else pyval_of (data self))
             no_kwargs of
        Inl e \<Rightarrow> Inl e
      | Inr (new_styled, st1) \<Rightarrow>
          (let (a', st2) = alloc st1 (cells st1 (codes self))
           in Inr (set_codes new_styled a', st2)))"

subsection \<open>Persistence: \_\_getnewargs\_\_ and pickling\<close>

text \<open>\<^verbatim>\<open>Styled.__getnewargs__\<close>, lines 119 and 120: \<^verbatim>\<open>return (self.data, self._codes)\<close>.\<close>

definition Styled_getnewargs :: "styled \<Rightarrow> content \<times> addr" where
  "Styled_getnewargs self = (data self, codes self)"

text \<open>
  What \<^verbatim>\<open>pickle.dump\<close> writes for an instance (tests/test\_builtins.py, lines 25 to
  32). The class defines \<^verbatim>\<open>__getnewargs__\<close> and no \<^verbatim>\<open>__reduce__\<close> or
  \<^verbatim>\<open>__getstate__\<close>, so the pickle holds the arguments \<^verbatim>\<open>__getnewargs__\<close> returns and
  the instance dictionary, whose two entries \<^verbatim>\<open>data\<close> and \<^verbatim>\<open>_codes\<close> are the same
  two objects and are written once: a content and the elements of a code list. A content
  that is an instance is pickled in the same way.
\<close>

datatype pickled = Pickled pcontent "code list"
  and pcontent = PText string | PObject pickled

fun pickle_dumps :: "store \<Rightarrow> styled \<Rightarrow> pickled"
  and dumps_content :: "store \<Rightarrow> content \<Rightarrow> pcontent"
where
  "pickle_dumps st (Styled sv d a) = Pickled (dumps_content st d) (cells st a)"
| "dumps_content st (Str s) = PText s"
| "dumps_content st (Obj v) = PObject (pickle_dumps st v)"

text \<open>
  What \<^verbatim>\<open>pickle.load\<close> does with it: it rebuilds the two objects, calls
  \<^verbatim>\<open>Styled.__new__(Styled, data, codes)\<close> on them, and then sets the attributes
  \<^verbatim>\<open>data\<close> and \<^verbatim>\<open>_codes\<close> of the new object from the pickled dictionary.
  \<^verbatim>\<open>__init__\<close> is not called.
\<close>

fun pickle_loads :: "str_formatter \<Rightarrow> store \<Rightarrow> pickled \<Rightarrow> error + styled \<times> store"
  and loads_content :: "str_formatter \<Rightarrow> store \<Rightarrow> pcontent \<Rightarrow> error + content \<times> store"
where
  "pickle_loads fmt st (Pickled pd cs) =
     (case loads_content fmt st pd of
        Inl e \<Rightarrow> Inl e
      | Inr (d, st1) \<Rightarrow>
          (let (a, st2) = alloc st1 cs
           in case Styled_new fmt st2 (pyval_of d) (Some a) of
                Inl e \<Rightarrow> Inl e
              | Inr (obj, st3) \<Rightarrow> Inr (Styled (raw_strval obj) d a, st3)))"
| "loads_content fmt st (PText s) = Inr (Str s, st)"
| "loads_content fmt st (PObject p) =
     (case pickle_loads fmt st p of
        Inl e \<Rightarrow> Inl e
      | Inr (v, st1) \<Rightarrow> Inr (Obj v, st1))"

subsection \<open>Inputs for the examples\<close>

text \<open>
  A formatter for examples that format with the empty specification only: it rejects
  every other specification.
\<close>

definition reject_format :: str_formatter where
  "reject_format s format_string = Inl ValueError"

section \<open>Supporting facts\<close>

subsection \<open>Construction from plain text\<close>

lemma Styled_call_text:
  "Styled_call fmt st (PStr s) kw =
     (case init_codes kw of
        Inl e \<Rightarrow> Inl e
      | Inr cs \<Rightarrow> Inr (Styled s (Str s) (fresh st), snd (alloc st cs)))"
  by (simp add: Styled_call_def Styled_new_def Styled_init_def alloc_def split: sum.splits)

lemma init_codes_none [simp]: "init_codes no_kwargs = Inr []"
  by (simp add: init_codes_def no_kwargs_def color_part_def style_part_def)

lemma Styled_str_text:
  "data v = Str d \<Longrightarrow>
   Styled_str fmt st v =
     Inr (CHR 0x1B # CHR ''['' # Styled_join (cells st (codes v)) @ CHR ''m'' # d
          @ CHR 0x1B # ''[0m'')"
  by (simp add: Styled_str_def str_format_def ESC_def)

text \<open>The test of line 63 can only hold where the test of line 61 already holds.\<close>

lemma line_63_is_dead: "isinstance_Styled x \<Longrightarrow> isinstance_str x"
  by (cases x) simp_all

subsection \<open>Decimal numerals and the codes of the examples\<close>

lemma str_int_examples:
  "str_int 1 = ''1''" "str_int 5 = ''5''" "str_int 98 = ''98''" "str_int 108 = ''108''"
  "str_int 99 = ''99''" "str_int 109 = ''109''"
  by code_simp+

lemma init_codes_red: "init_codes (no_kwargs\<lparr>fg := Some (SStr ''red'')\<rparr>) = Inr [CStr ''31'']"
  by code_simp

lemma init_codes_blue: "init_codes (no_kwargs\<lparr>fg := Some (SStr ''blue'')\<rparr>) = Inr [CStr ''34'']"
  by code_simp

lemma init_codes_magenta:
  "init_codes (no_kwargs\<lparr>fg := Some (SStr ''magenta'')\<rparr>) = Inr [CStr ''35'']"
  by code_simp

lemma init_codes_bg_black:
  "init_codes (no_kwargs\<lparr>bg := Some (SStr ''black'')\<rparr>) = Inr [CStr ''40'']"
  by code_simp

lemma init_codes_red_on_blue:
  "init_codes (no_kwargs\<lparr>fg := Some (SStr ''red''), bg := Some (SStr ''blue'')\<rparr>)
     = Inr [CStr ''31'', CStr ''44'']"
  by code_simp

lemma init_codes_300: "init_codes (no_kwargs\<lparr>fg := Some (SInt 300)\<rparr>) = Inr [CNone]"
  by code_simp

lemma init_codes_bright_red:
  "init_codes (no_kwargs\<lparr>fg := Some (SStr ''red''), brightfg := True\<rparr>) = Inr [CStr ''91'']"
  by code_simp

lemma init_codes_bg_196:
  "init_codes (no_kwargs\<lparr>bg := Some (SInt 196)\<rparr>) = Inr [CStr ''48;5;196'']"
  by code_simp

text \<open>
  Three renderings: \<^verbatim>\<open>Styled('hi', fg='red')\<close>,
  \<^verbatim>\<open>Styled('hi', fg='red', brightfg=True)\<close> and \<^verbatim>\<open>Styled('hi', bg=196)\<close>.
\<close>

lemma render_examples:
  "\<exists>v st. Styled_call fmt empty_store (PStr ''hi'') (no_kwargs\<lparr>fg := Some (SStr ''red'')\<rparr>)
             = Inr (v, st)
          \<and> Styled_str fmt st v = Inr (CHR 0x1B # ''[31mhi'' @ CHR 0x1B # ''[0m'')"
  "\<exists>v st. Styled_call fmt empty_store (PStr ''hi'')
               (no_kwargs\<lparr>fg := Some (SStr ''red''), brightfg := True\<rparr>) = Inr (v, st)
          \<and> Styled_str fmt st v = Inr (CHR 0x1B # ''[91mhi'' @ CHR 0x1B # ''[0m'')"
  "\<exists>v st. Styled_call fmt empty_store (PStr ''hi'') (no_kwargs\<lparr>bg := Some (SInt 196)\<rparr>)
             = Inr (v, st)
          \<and> Styled_str fmt st v = Inr (CHR 0x1B # ''[48;5;196mhi'' @ CHR 0x1B # ''[0m'')"
  by (simp_all add: Styled_call_text init_codes_red init_codes_bright_red init_codes_bg_196
        Styled_str_text alloc_def Styled_join_def)

subsection \<open>Equality, hash and the orderings read the content\<close>

lemma Styled_eq_data:
  "Styled_eq v (PStyled w) = content_eq (data v) (data w)"
  "Styled_eq v (PStr t) = content_eq (data v) (Str t)"
  "Styled_eq v (PInt i) = False"
  "Styled_eq v PNone = False"
  by (cases v; cases w; simp)+

lemma Styled_hash_data: "Styled_hash h v = content_hash h (data v)"
  by (cases v) simp

lemma Styled_lt_text:
  "data a = Str s \<Longrightarrow> data b = Str t \<Longrightarrow> Styled_lt a (PStyled b) = Inr (str_lt s t)"
  by (cases a; cases b) simp

lemma orderings_against_plain_text:
  assumes "data a = Str s"
  shows "Styled_lt a (PStr t) = Inr (str_lt s t)"
    and "Styled_le a (PStr t) = Inr (s = t \<or> str_lt s t)"
    and "Styled_gt a (PStr t) = Inr (str_lt t s)"
    and "Styled_ge a (PStr t) = Inr (s = t \<or> str_lt t s)"
  using assms by (cases a; simp)+

lemma orderings_against_non_text:
  assumes "\<not> isinstance_str x"
  shows "Styled_lt a x = Inl TypeError" and "Styled_le a x = Inl TypeError"
    and "Styled_gt a x = Inl TypeError" and "Styled_ge a x = Inl TypeError"
  using assms by (cases a; cases x; simp)+

lemma orderings_between_instances:
  "Styled_le a (PStyled b) = Inl NameError"
  "Styled_gt a (PStyled b) = Inl NameError"
  "Styled_ge a (PStyled b) = Inl NameError"
  by (cases a; simp)+

subsection \<open>Which operations copy the code list\<close>

lemma Styled_call_fresh:
  assumes "Styled_call fmt st x kw = Inr (v, st')"
  shows "fresh st' = Suc (fresh st)" and "a < fresh st \<Longrightarrow> cells st' a = cells st a"
  using assms
  by (auto simp: Styled_call_def Styled_new_def Styled_init_def alloc_def
           split: sum.splits prod.splits)

lemma Styled_copy_fresh_list:
  assumes "Styled_copy fmt st v new_data = Inr (w, st')" and "codes v < fresh st"
  shows "codes w = Suc (fresh st)" and "codes w \<noteq> codes v"
    and "cells st' (codes w) = cells st (codes v)"
    and "cells st' (codes v) = cells st (codes v)"
  using assms Styled_call_fresh [of fmt st _ no_kwargs]
  by (auto simp: Styled_copy_def alloc_def set_codes_def split: sum.splits prod.splits)

lemma Styled_mul_shares_list:
  "Styled_mul fmt st v n = Inr (w, st') \<Longrightarrow> codes w = codes v"
  by (cases v) (auto simp: set_codes_def split: sum.splits prod.splits)

lemma Styled_upper_shares_list:
  "Styled_upper up fmt st v = Inr (w, st') \<Longrightarrow> codes w = codes v"
  by (cases v) (auto simp: set_codes_def split: sum.splits prod.splits)

text \<open>
  \<^verbatim>\<open>__getitem__\<close> only allocates: the store grows, and the list of the result is one
  of the new ones.
\<close>

lemma getitem_fresh_mono:
  "(Styled_getitem fmt st v key = Inr (w, st') \<longrightarrow>
      fresh st < fresh st' \<and> codes w < fresh st' \<and> fresh st \<le> codes w)"
  "(content_getitem fmt st c key = Inr (x, st') \<longrightarrow> fresh st \<le> fresh st')"
proof (induction fmt st v key and fmt st c key arbitrary: w st' and x st'
       rule: Styled_getitem_content_getitem.induct)
  case (1 fmt st sv d a key)
  show ?case
  proof
    assume r: "Styled_getitem fmt st (Styled sv d a) key = Inr (w, st')"
    then obtain x st1 where c: "content_getitem fmt st d key = Inr (x, st1)"
      by (auto split: sum.splits)
    with r obtain n st2 where n: "Styled_call fmt st1 x no_kwargs = Inr (n, st2)"
      by (auto split: sum.splits)
    from c "1.IH" have le: "fresh st \<le> fresh st1" by blast
    from n have f2: "fresh st2 = Suc (fresh st1)" by (rule Styled_call_fresh)
    from r c n have "w = set_codes n (fresh st2)" "fresh st' = Suc (fresh st2)"
      by (auto simp: alloc_def)
    with le f2 show "fresh st < fresh st' \<and> codes w < fresh st' \<and> fresh st \<le> codes w"
      by (simp add: set_codes_def)
  qed
next
  case (2 fmt st s key)
  then show ?case by (auto split: sum.splits)
next
  case (3 fmt st v key)
  then show ?case by (fastforce split: sum.splits)
qed

lemma Styled_getitem_fresh_list:
  assumes "Styled_getitem fmt st v key = Inr (w, st')" and "codes v < fresh st"
  shows "codes w \<noteq> codes v"
  using assms getitem_fresh_mono(1) [of fmt st v key w st'] by auto

subsection \<open>Formatting with exactly one code\<close>

lemma Styled_format_one_code:
  assumes "data v = Str d" and "cells st (codes v) = [c]"
      and "str_format fmt d format_string = Inr body"
  shows "Styled_format fmt st v format_string
           = Inr (CHR 0x1B # CHR ''['' # str_code c @ CHR ''m'' # body @ CHR 0x1B # ''[0m'')"
  using assms by (cases v) (simp add: ESC_def)

subsection \<open>Errors of construction\<close>

lemma style_codes_unknown_name:
  "part \<in> set parts \<Longrightarrow> part \<notin> set STYLES \<Longrightarrow> style_codes parts = Inl ValueError"
  by (induction parts) (auto split: sum.splits)

lemma style_codes_known_names:
  "set parts \<subseteq> set STYLES \<Longrightarrow>
   style_codes parts = Inr (map (\<lambda>p. CInt (int (tuple_index STYLES p))) parts)"
  by (induction parts) auto

lemma unknown_style_raises:
  "init_codes (no_kwargs\<lparr>style := Some (StyleStr ''glow'')\<rparr>) = Inl ValueError"
  by code_simp

lemma no_arguments_no_codes:
  "Styled_call fmt st (PStr s) no_kwargs = Inr (v, st') \<Longrightarrow> cells st' (codes v) = []"
  by (auto simp: Styled_call_text alloc_def)

lemma unknown_style_name_raises_ValueError:
  assumes "fg kw = None" and "bg kw = None" and "style kw = Some sty" and "truthy_style sty"
      and "part \<in> set (style_parts sty)" and "part \<notin> set STYLES"
  shows "Styled_call fmt st (PStr s) kw = Inl ValueError"
  using assms style_codes_unknown_name [of part "style_parts sty"]
  by (simp add: Styled_call_text init_codes_def color_part_def style_part_def)

lemma rgb_sequence_raises_NameError:
  "init_codes (no_kwargs\<lparr>fg := Some (SSeq (x # xs)), brightfg := b\<rparr>) = Inl NameError"
  by (simp add: init_codes_def no_kwargs_def color_part_def)

text \<open>The code list of a constructed instance holds what the keyword arguments give.\<close>

lemma constructed_codes_come_from_the_arguments:
  "Styled_call fmt st x kw = Inr (v, st') \<Longrightarrow> init_codes kw = Inr (cells st' (codes v))"
  by (auto simp: Styled_call_def Styled_new_def Styled_init_def alloc_def
           split: sum.splits prod.splits)

section \<open>The claims\<close>

text \<open>
  C1. For an instance whose content is the text \<open>d\<close> and whose code list is \<open>cs\<close>,
  \<^verbatim>\<open>__str__\<close> returns ESC, an opening bracket, the codes joined with semicolons (a
  code that is itself a compound string is inserted as it is), the letter m, then \<open>d\<close>,
  then ESC and \<^verbatim>\<open>[0m\<close>; for the empty code list the result is ESC \<^verbatim>\<open>[m\<close>, \<open>d\<close>,
  ESC \<^verbatim>\<open>[0m\<close>.
\<close>

theorem C1_render_format:
  assumes "data v = Str d" and "cells st (codes v) = cs"
  shows "Styled_str fmt st v =
           Inr (CHR 0x1B # CHR ''['' # str_join '';'' (map str_code cs) @ CHR ''m'' # d
                @ CHR 0x1B # ''[0m'')
         \<and> (cs = [] \<longrightarrow> Styled_str fmt st v = Inr (CHR 0x1B # ''[m'' @ d @ CHR 0x1B # ''[0m''))"
  using assms by (simp add: Styled_str_def str_format_def Styled_join_def ESC_def)

theorem C1_render_format_witness:
  "Styled_str reject_format \<lparr>cells = (\<lambda>a. [])(0 := [CStr ''38;5;196'', CInt 1]), fresh = 1\<rparr>
       (Styled ''hi'' (Str ''hi'') 0)
     = Inr (CHR 0x1B # ''[38;5;196;1mhi'' @ CHR 0x1B # ''[0m'')
   \<and> Styled_str reject_format empty_store (Styled ''hi'' (Str ''hi'') 0)
     = Inr (CHR 0x1B # ''[mhi'' @ CHR 0x1B # ''[0m'')"
  using C1_render_format [of "Styled ''hi'' (Str ''hi'') 0" "''hi''"
      "\<lparr>cells = (\<lambda>a. [])(0 := [CStr ''38;5;196'', CInt 1]), fresh = 1\<rparr>"
      "[CStr ''38;5;196'', CInt 1]" reject_format]
    C1_render_format [of "Styled ''hi'' (Str ''hi'') 0" "''hi''" empty_store "[]" reject_format]
  by (simp add: str_int_examples empty_store_def)

text \<open>
  C2. Two instances constructed from the same text \<open>s\<close> with any two sets of style
  arguments are equal (in both directions) and have the same hash. Neither \<^verbatim>\<open>__eq__\<close>
  nor \<^verbatim>\<open>__hash__\<close> takes the store, so neither can read a code list, and binding
  another list to \<^verbatim>\<open>_codes\<close> changes neither result. An instance is not equal to an
  integer or to \<^verbatim>\<open>None\<close>.
\<close>

theorem C2_equality_and_hash_use_content_only:
  assumes "Styled_call fmt st (PStr s) kwA = Inr (a, stA)"
      and "Styled_call fmt st' (PStr s) kwB = Inr (b, stB)"
  shows "Styled_eq a (PStyled b) \<and> Styled_eq b (PStyled a)
         \<and> Styled_hash h a = Styled_hash h b
         \<and> Styled_eq (set_codes a c) x = Styled_eq a x
         \<and> Styled_hash h (set_codes a c) = Styled_hash h a
         \<and> \<not> Styled_eq a (PInt i) \<and> \<not> Styled_eq a PNone"
proof -
  from assms(1) have da: "data a = Str s"
    by (auto simp: Styled_call_text split: sum.splits)
  from assms(2) have db: "data b = Str s"
    by (auto simp: Styled_call_text split: sum.splits)
  have same: "Styled_eq (set_codes a c) x = Styled_eq a x"
    by (cases x) (simp_all add: Styled_eq_data set_codes_def)
  show ?thesis
    using da db same by (simp add: Styled_eq_data Styled_hash_data set_codes_def)
qed

theorem C2_equality_and_hash_use_content_only_witness:
  "Styled_eq (Styled ''not a string'' (Str ''not a string'') 0)
       (PStyled (Styled ''not a string'' (Str ''not a string'') 1))
   \<and> Styled_eq (Styled ''not a string'' (Str ''not a string'') 1)
       (PStyled (Styled ''not a string'' (Str ''not a string'') 0))
   \<and> Styled_hash (\<lambda>s. int (length s)) (Styled ''not a string'' (Str ''not a string'') 0)
       = Styled_hash (\<lambda>s. int (length s)) (Styled ''not a string'' (Str ''not a string'') 1)
   \<and> \<not> Styled_eq (Styled ''not a string'' (Str ''not a string'') 0) (PInt 5)
   \<and> \<not> Styled_eq (Styled ''not a string'' (Str ''not a string'') 0) PNone"
proof -
  have A: "Styled_call reject_format empty_store (PStr ''not a string'')
             (no_kwargs\<lparr>fg := Some (SStr ''magenta'')\<rparr>)
           = Inr (Styled ''not a string'' (Str ''not a string'') 0,
                  snd (alloc empty_store [CStr ''35'']))"
    by (simp add: Styled_call_text init_codes_magenta empty_store_def)
  have B: "Styled_call reject_format (snd (alloc empty_store [CStr ''35'']))
             (PStr ''not a string'') (no_kwargs\<lparr>bg := Some (SStr ''black'')\<rparr>)
           = Inr (Styled ''not a string'' (Str ''not a string'') 1,
                  snd (alloc (snd (alloc empty_store [CStr ''35''])) [CStr ''40'']))"
    by (simp add: Styled_call_text init_codes_bg_black empty_store_def alloc_def)
  show ?thesis
    using C2_equality_and_hash_use_content_only
            [OF A B, of "\<lambda>s. int (length s)" 7 "PInt 5" 5]
    by simp
qed

text \<open>
  C3. At \<^verbatim>\<open>Styled('a')\<close> and \<^verbatim>\<open>Styled('b')\<close>: \<^verbatim>\<open><\<close> returns the comparison of the
  contents, while \<^verbatim>\<open><=\<close>, \<^verbatim>\<open>>\<close> and \<^verbatim>\<open>>=\<close> raise \<^verbatim>\<open>NameError\<close>.
\<close>

theorem C3_le_gt_ge_between_instances_raise_NameError:
  "\<exists>a st1 b st2.
     Styled_call reject_format empty_store (PStr ''a'') no_kwargs = Inr (a, st1)
     \<and> Styled_call reject_format st1 (PStr ''b'') no_kwargs = Inr (b, st2)
     \<and> Styled_lt a (PStyled b) = Inr True
     \<and> Styled_le a (PStyled b) = Inl NameError
     \<and> Styled_gt a (PStyled b) = Inl NameError
     \<and> Styled_ge a (PStyled b) = Inl NameError"
  by (simp add: Styled_call_text)

text \<open>
  C4. \<^verbatim>\<open>Styled('hi', fg=300)\<close> raises nothing: it returns an instance whose code list
  is \<^verbatim>\<open>[None]\<close> and whose rendering is ESC \<^verbatim>\<open>[Nonemhi\<close> ESC \<^verbatim>\<open>[0m\<close>.
\<close>

theorem C4_out_of_range_color_is_accepted:
  "\<exists>v st.
     Styled_call reject_format empty_store (PStr ''hi'') (no_kwargs\<lparr>fg := Some (SInt 300)\<rparr>)
       = Inr (v, st)
     \<and> cells st (codes v) = [CNone]
     \<and> Styled_str reject_format st v = Inr (CHR 0x1B # ''[Nonemhi'' @ CHR 0x1B # ''[0m'')"
  by (simp add: Styled_call_text init_codes_300 Styled_str_text alloc_def Styled_join_def)

text \<open>
  C5. With two codes, \<^verbatim>\<open>format(Styled('hi', fg='red', bg='blue'), '')\<close> is ESC
  \<^verbatim>\<open>[31m44\<close> ESC \<^verbatim>\<open>[0m\<close>: the second code stands where the content should, and the
  content is lost, while \<^verbatim>\<open>str\<close> of the same instance is ESC \<^verbatim>\<open>[31;44mhi\<close> ESC
  \<^verbatim>\<open>[0m\<close>. With no code, \<^verbatim>\<open>format(Styled('hi'), '')\<close> raises \<^verbatim>\<open>IndexError\<close>.
\<close>

theorem C5_format_wraps_only_with_exactly_one_code:
  "(\<exists>v st.
      Styled_call reject_format empty_store (PStr ''hi'')
          (no_kwargs\<lparr>fg := Some (SStr ''red''), bg := Some (SStr ''blue'')\<rparr>) = Inr (v, st)
      \<and> Styled_str reject_format st v = Inr (CHR 0x1B # ''[31;44mhi'' @ CHR 0x1B # ''[0m'')
      \<and> Styled_format reject_format st v [] = Inr (CHR 0x1B # ''[31m44'' @ CHR 0x1B # ''[0m''))
   \<and> (\<exists>v st.
      Styled_call reject_format empty_store (PStr ''hi'') no_kwargs = Inr (v, st)
      \<and> Styled_str reject_format st v = Inr (CHR 0x1B # ''[mhi'' @ CHR 0x1B # ''[0m'')
      \<and> Styled_format reject_format st v [] = Inl IndexError)"
  by (simp add: Styled_call_text init_codes_red_on_blue Styled_str_text alloc_def Styled_join_def
        str_format_def ESC_def)

text \<open>
  C6, as stated, fails: with the specification \<^verbatim>\<open>'default'\<close> the bright flag changes
  the emitted code from 39 to 99.
\<close>

theorem C6_bright_changes_default_counterexample:
  "init_codes (no_kwargs\<lparr>fg := Some (SStr ''default''), brightfg := True\<rparr>) = Inr [CStr ''99'']
   \<and> init_codes (no_kwargs\<lparr>fg := Some (SStr ''default''), brightfg := False\<rparr>)
       = Inr [CStr ''39'']"
  by code_simp

text \<open>
  C6, amended. When the bright flag is set, 60 is added to the base before the
  specification is looked at, whatever its kind. A named colour (a string that, stripped
  and lower-cased, is one of the eight names, at position \<open>k\<close>) emits \<open>90 + k\<close> as
  foreground and \<open>100 + k\<close> as background, which lie in 90 to 97 and 100 to 107;
  \<^verbatim>\<open>'default'\<close> emits 99 and 109; a palette integer \<open>n\<close> from 1 to 255 emits
  \<^verbatim>\<open>98;5;n\<close> and \<^verbatim>\<open>108;5;n\<close>.
\<close>

theorem C6_bright_adds_60_to_the_base:
  assumes "str_lower (str_strip s) \<in> set COLORS" and "0 < n" and "n \<le> 255"
  shows "(let k = int (tuple_index COLORS (str_lower (str_strip s)))
          in init_codes (no_kwargs\<lparr>fg := Some (SStr s), brightfg := True\<rparr>)
               = Inr [CStr (str_int (90 + k))]
             \<and> init_codes (no_kwargs\<lparr>bg := Some (SStr s), brightbg := True\<rparr>)
               = Inr [CStr (str_int (100 + k))]
             \<and> 0 \<le> k \<and> k \<le> 7)
         \<and> init_codes (no_kwargs\<lparr>fg := Some (SStr ''default''), brightfg := True\<rparr>)
             = Inr [CStr ''99'']
         \<and> init_codes (no_kwargs\<lparr>bg := Some (SStr ''default''), brightbg := True\<rparr>)
             = Inr [CStr ''109'']
         \<and> init_codes (no_kwargs\<lparr>fg := Some (SInt n), brightfg := True\<rparr>)
             = Inr [CStr (''98;5;'' @ str_int n)]
         \<and> init_codes (no_kwargs\<lparr>bg := Some (SInt n), brightbg := True\<rparr>)
             = Inr [CStr (''108;5;'' @ str_int n)]"
proof -
  let ?x = "str_lower (str_strip s)"
  have nonempty: "s \<noteq> []"
    using assms(1) by (auto simp: str_lower_def str_strip_def COLORS_def)
  have not_default: "?x \<noteq> ''default''"
    using assms(1) by (auto simp: COLORS_def)
  have k: "tuple_index COLORS ?x \<le> 7"
    using assms(1) by (auto simp: COLORS_def)
  have d1: "init_codes (no_kwargs\<lparr>fg := Some (SStr ''default''), brightfg := True\<rparr>)
              = Inr [CStr ''99'']"
    by code_simp
  have d2: "init_codes (no_kwargs\<lparr>bg := Some (SStr ''default''), brightbg := True\<rparr>)
              = Inr [CStr ''109'']"
    by code_simp
  show ?thesis
    using nonempty not_default k assms
    by (simp add: d1 d2)
       (simp add: init_codes_def no_kwargs_def color_part_def style_part_def Styled_join_def
          BASE_FG_def BASE_BG_def BASE_BRIGHT_INC_def str_int_examples Let_def)
qed

theorem C6_bright_adds_60_to_the_base_witness:
  "init_codes (no_kwargs\<lparr>fg := Some (SStr '' Red''), brightfg := True\<rparr>) = Inr [CStr ''91'']
   \<and> init_codes (no_kwargs\<lparr>bg := Some (SStr '' Red''), brightbg := True\<rparr>) = Inr [CStr ''101'']
   \<and> init_codes (no_kwargs\<lparr>fg := Some (SInt 196), brightfg := True\<rparr>)
       = Inr [CStr ''98;5;196'']
   \<and> init_codes (no_kwargs\<lparr>bg := Some (SInt 196), brightbg := True\<rparr>)
       = Inr [CStr ''108;5;196'']"
proof -
  have named: "str_lower (str_strip '' Red'') \<in> set COLORS"
    by code_simp
  have k: "tuple_index COLORS (str_lower (str_strip '' Red'')) = 1"
    by code_simp
  have n: "(0::int) < 196" "(196::int) \<le> 255"
    by simp_all
  have digits: "str_int 91 = ''91''" "str_int 101 = ''101''" "str_int 196 = ''196''"
    by code_simp+
  show ?thesis
    using C6_bright_adds_60_to_the_base [OF named n]
    by (simp add: k digits)
qed

text \<open>
  C7. \<^verbatim>\<open>+\<close> and its reflected form on an instance and a plain string or another
  instance return a plain string, the concatenation of the two renderings (a plain string
  renders as itself) in the order of the operands; with an integer or \<^verbatim>\<open>None\<close> they
  raise \<^verbatim>\<open>TypeError\<close>.
\<close>

theorem C7_concatenation_is_rendered_text:
  assumes "Styled_str fmt st v = Inr r" and "Styled_str fmt st w = Inr r'"
  shows "Styled_add fmt st v (PStr t) = Inr (r @ t)
         \<and> Styled_radd fmt st v (PStr t) = Inr (t @ r)
         \<and> Styled_add fmt st v (PStyled w) = Inr (r @ r')
         \<and> Styled_radd fmt st v (PStyled w) = Inr (r' @ r)
         \<and> Styled_add fmt st v (PInt i) = Inl TypeError
         \<and> Styled_radd fmt st v (PInt i) = Inl TypeError
         \<and> Styled_add fmt st v PNone = Inl TypeError
         \<and> Styled_radd fmt st v PNone = Inl TypeError"
  using assms by (simp add: Styled_add_def Styled_radd_def)

theorem C7_concatenation_is_rendered_text_witness:
  "Styled_add reject_format \<lparr>cells = (\<lambda>a. [])(0 := [CStr ''31''], 1 := [CStr ''44'']), fresh = 2\<rparr>
       (Styled ''hi'' (Str ''hi'') 0) (PStyled (Styled ''yo'' (Str ''yo'') 1))
     = Inr (CHR 0x1B # ''[31mhi'' @ CHR 0x1B # ''[0m'' @ CHR 0x1B # ''[44myo'' @ CHR 0x1B # ''[0m'')
   \<and> Styled_radd reject_format
       \<lparr>cells = (\<lambda>a. [])(0 := [CStr ''31''], 1 := [CStr ''44'']), fresh = 2\<rparr>
       (Styled ''hi'' (Str ''hi'') 0) (PStr ''abc'')
     = Inr (''abc'' @ CHR 0x1B # ''[31mhi'' @ CHR 0x1B # ''[0m'')
   \<and> Styled_add reject_format
       \<lparr>cells = (\<lambda>a. [])(0 := [CStr ''31''], 1 := [CStr ''44'']), fresh = 2\<rparr>
       (Styled ''hi'' (Str ''hi'') 0) (PInt 3)
     = Inl TypeError"
proof -
  let ?st = "\<lparr>cells = (\<lambda>a. [])(0 := [CStr ''31''], 1 := [CStr ''44'']), fresh = 2\<rparr>"
  have r: "Styled_str reject_format ?st (Styled ''hi'' (Str ''hi'') 0)
             = Inr (CHR 0x1B # ''[31mhi'' @ CHR 0x1B # ''[0m'')"
    by (simp add: Styled_str_text Styled_join_def)
  have r': "Styled_str reject_format ?st (Styled ''yo'' (Str ''yo'') 1)
             = Inr (CHR 0x1B # ''[44myo'' @ CHR 0x1B # ''[0m'')"
    by (simp add: Styled_str_text Styled_join_def)
  show ?thesis
    using C7_concatenation_is_rendered_text [OF r r', of "''abc''" 3]
    by simp
qed

text \<open>
  C8. At \<^verbatim>\<open>v = Styled('ab', fg='red')\<close>: the results of \<^verbatim>\<open>v * 2\<close> and of
  \<^verbatim>\<open>v.upper()\<close> hold the very list object of \<open>v\<close>, not a copy, so that appending a
  code to the list of \<^verbatim>\<open>v * 2\<close> changes the rendering of \<open>v\<close>.
\<close>

theorem C8_mul_and_upper_share_the_code_list:
  "\<exists>v st1 w st2.
     Styled_call reject_format empty_store (PStr ''ab'') (no_kwargs\<lparr>fg := Some (SStr ''red'')\<rparr>)
       = Inr (v, st1)
     \<and> Styled_mul reject_format st1 v 2 = Inr (w, st2)
     \<and> codes w = codes v
     \<and> (\<forall>up. \<exists>u st3. Styled_upper up reject_format st1 v = Inr (u, st3) \<and> codes u = codes v)
     \<and> Styled_str reject_format st2 v = Inr (CHR 0x1B # ''[31mab'' @ CHR 0x1B # ''[0m'')
     \<and> Styled_str reject_format (list_append st2 (codes w) (CInt 1)) v
         = Inr (CHR 0x1B # ''[31;1mab'' @ CHR 0x1B # ''[0m'')"
  by (simp add: Styled_call_text init_codes_red Styled_str_text alloc_def Styled_join_def
        set_codes_def list_append_def str_int_examples)

text \<open>
  C9. For an instance \<open>v\<close> with text content, loading the pickle of \<open>v\<close> (into any
  store) succeeds and returns an instance with the same content, equal to \<open>v\<close>, with
  the same codes and the same rendering.
\<close>

theorem C9_pickle_round_trip:
  assumes "data v = Str d"
  shows "\<exists>w st'. pickle_loads fmt st0 (pickle_dumps st v) = Inr (w, st')
           \<and> data w = Str d \<and> Styled_eq w (PStyled v)
           \<and> cells st' (codes w) = cells st (codes v)
           \<and> Styled_str fmt st' w = Styled_str fmt st v"
  using assms
  by (cases v) (simp add: Styled_new_def alloc_def Styled_str_text pyval_of_def)

theorem C9_pickle_round_trip_witness:
  "\<exists>w st'.
     pickle_loads reject_format empty_store
       (pickle_dumps \<lparr>cells = (\<lambda>a. [])(0 := [CStr ''36'', CStr ''47'']), fresh = 1\<rparr>
          (Styled ''pickle me!'' (Str ''pickle me!'') 0)) = Inr (w, st')
     \<and> data w = Str ''pickle me!''
     \<and> cells st' (codes w) = [CStr ''36'', CStr ''47'']
     \<and> Styled_str reject_format st' w
         = Inr (CHR 0x1B # ''[36;47mpickle me!'' @ CHR 0x1B # ''[0m'')"
proof -
  let ?st = "\<lparr>cells = (\<lambda>a. [])(0 := [CStr ''36'', CStr ''47'']), fresh = 1\<rparr>"
  let ?v = "Styled ''pickle me!'' (Str ''pickle me!'') 0"
  have d: "data ?v = Str ''pickle me!''"
    by simp
  have r: "Styled_str reject_format ?st ?v
             = Inr (CHR 0x1B # ''[36;47mpickle me!'' @ CHR 0x1B # ''[0m'')"
    by (simp add: Styled_str_text Styled_join_def)
  from C9_pickle_round_trip [OF d, of reject_format empty_store ?st]
  obtain w st' where
    "pickle_loads reject_format empty_store (pickle_dumps ?st ?v) = Inr (w, st')"
    "data w = Str ''pickle me!''"
    "cells st' (codes w) = cells ?st (codes ?v)"
    "Styled_str reject_format st' w = Styled_str reject_format ?st ?v"
    by blast
  then show ?thesis
    using r by simp
qed

text \<open>
  C10. At \<^verbatim>\<open>Styled(Styled('hi', fg='blue'), fg='red')\<close>: the content of the new
  instance is the given instance itself, not its text, and the rendering carries the code
  of the given instance inside that of the new one. At \<^verbatim>\<open>Styled(Styled('hi'))\<close> the
  rendering raises \<^verbatim>\<open>IndexError\<close>.
\<close>

theorem C10_instance_content_is_kept_as_an_instance:
  "(\<exists>inner st1 outer st2.
      Styled_call reject_format empty_store (PStr ''hi'') (no_kwargs\<lparr>fg := Some (SStr ''blue'')\<rparr>)
        = Inr (inner, st1)
      \<and> Styled_call reject_format st1 (PStyled inner) (no_kwargs\<lparr>fg := Some (SStr ''red'')\<rparr>)
        = Inr (outer, st2)
      \<and> data inner = Str ''hi''
      \<and> data outer = Obj inner
      \<and> cells st2 (codes outer) = [CStr ''31'']
      \<and> Styled_str reject_format st2 outer
          = Inr (CHR 0x1B # ''[31m'' @ CHR 0x1B # ''[34mhi'' @ CHR 0x1B # ''[0m''
                 @ CHR 0x1B # ''[0m''))
   \<and> (\<exists>inner st1 outer st2.
      Styled_call reject_format empty_store (PStr ''hi'') no_kwargs = Inr (inner, st1)
      \<and> Styled_call reject_format st1 (PStyled inner) no_kwargs = Inr (outer, st2)
      \<and> data outer = Obj inner
      \<and> Styled_str reject_format st2 outer = Inl IndexError)"
  by (simp add: Styled_call_text init_codes_blue init_codes_red Styled_call_def Styled_new_def
        Styled_init_def Styled_str_def alloc_def Styled_join_def str_format_def ESC_def)

end
